theory Spec2Isabelle
  imports Main "HOL-Library.Sublist" "HOL-Library.Multiset"
begin

section \<open>JavaScript primitives used by the version registry\<close>

text \<open>
  Strings are lists of code units below 256. The three substring tests of
  \<^verbatim>\<open>String.prototype\<close> that \<^verbatim>\<open>src/renderer/versions.ts\<close> calls are written out
  as recursive functions; \<open>str_includes\<close> is the method \<^verbatim>\<open>includes\<close>.
\<close>

definition startsWith :: "string \<Rightarrow> string \<Rightarrow> bool" where
  "startsWith s searchString = prefix searchString s"

definition endsWith :: "string \<Rightarrow> string \<Rightarrow> bool" where
  "endsWith s searchString = suffix searchString s"

fun str_includes :: "string \<Rightarrow> string \<Rightarrow> bool" where
  "str_includes [] searchString = (searchString = [])"
| "str_includes (c # cs) searchString =
     (if prefix searchString (c # cs) then True else str_includes cs searchString)"

text \<open>A string is truthy exactly when it is not empty; an absent value is falsy.\<close>

definition truthy :: "string option \<Rightarrow> bool" where
  "truthy v = (case v of None \<Rightarrow> False | Some s \<Rightarrow> s \<noteq> [])"

section \<open>Data model\<close>

text \<open>
  Modelled from the spec: the enumerations \<^verbatim>\<open>ElectronReleaseChannel\<close> and
  \<^verbatim>\<open>VersionSource\<close> of \<^verbatim>\<open>src/interfaces.ts\<close> and \<^verbatim>\<open>InstallState\<close> of the
  installer package, and the interfaces \<^verbatim>\<open>Version\<close> and \<^verbatim>\<open>RunnableVersion\<close>, are
  not among the sources. The spec gives the channels stable, beta and nightly, the sources
  local and remote, the states installed and missing, and
  \<^verbatim>\<open>Version = { version: string, name?: string, localPath?: string }\<close>, which
  \<^verbatim>\<open>RunnableVersion\<close> extends by \<^verbatim>\<open>source\<close> and \<^verbatim>\<open>state\<close>.

  At run time a \<^verbatim>\<open>RunnableVersion\<close> is a \<^verbatim>\<open>Version\<close> object that carries the two
  further properties, and the code tells the two apart by \<^verbatim>\<open>source !== undefined\<close>
  (\<^verbatim>\<open>isElectronVersion\<close>). One record describes the object; the two properties of
  \<^verbatim>\<open>RunnableVersion\<close> are optional in it.
\<close>

datatype ElectronReleaseChannel = stable | beta | nightly

datatype VersionKeys = local | known

datatype VersionSource = local | remote

datatype InstallState = installed | missing

record Version =
  version :: string
  name :: "string option"
  localPath :: "string option"
  source :: "VersionSource option"
  state :: "InstallState option"

section \<open>Channel classifier\<close>

text \<open>
  \<^verbatim>\<open>getReleaseChannel(input: Version | string)\<close>: the tag is the string itself, or the
  \<^verbatim>\<open>version\<close> of the record (\<^verbatim>\<open>input.version || ''\<close> is that string, the only
  falsy string being the empty one).
\<close>

datatype channel_input = OfString string | OfVersion Version

definition getReleaseChannel :: "channel_input \<Rightarrow> ElectronReleaseChannel" where
  "getReleaseChannel input =
     (let tag = (case input of OfString s \<Rightarrow> s | OfVersion ver \<Rightarrow> version ver) in
      if str_includes tag ''beta'' \<or> str_includes tag ''alpha'' then ElectronReleaseChannel.beta
      else if str_includes tag ''nightly'' then ElectronReleaseChannel.nightly
      else ElectronReleaseChannel.stable)"

section \<open>Version state resolver\<close>

text \<open>
  \<^verbatim>\<open>getVersionState\<close> reads the disk through \<^verbatim>\<open>fs.existsSync\<close>, at the path that
  \<^verbatim>\<open>Installer.getExecPath\<close> computes for the platform. Both belong to other packages
  and are parameters here: \<open>getExecPath\<close> is the path layout, \<open>existsSync\<close> the
  state of the disk at the time of the call.
\<close>

definition getVersionState ::
  "(string \<Rightarrow> string) \<Rightarrow> (string \<Rightarrow> bool) \<Rightarrow> Version \<Rightarrow> InstallState" where
  "getVersionState getExecPath existsSync ver =
     (case localPath ver of
        Some p \<Rightarrow>
          if existsSync (getExecPath p) then InstallState.installed else InstallState.missing
      | None \<Rightarrow> InstallState.missing)"

section \<open>Runnable version assembler\<close>

text \<open>
  \<^verbatim>\<open>makeRunnable\<close> copies the record and overrides three properties.
  \<^verbatim>\<open>normalizeVersion\<close> (\<^verbatim>\<open>src/utils/normalize-version.ts\<close>) is not among the
  sources and is a parameter. \<^verbatim>\<open>Boolean(ver.localPath)\<close> is the truthiness of the
  optional string.
\<close>

definition makeRunnable ::
  "(string \<Rightarrow> string) \<Rightarrow> (string \<Rightarrow> string) \<Rightarrow> (string \<Rightarrow> bool) \<Rightarrow> Version \<Rightarrow> Version" where
  "makeRunnable normalizeVersion getExecPath existsSync ver =
     ver\<lparr> version := normalizeVersion (version ver),
          source := Some (if truthy (localPath ver) then VersionSource.local else VersionSource.remote),
          state := Some (getVersionState getExecPath existsSync ver) \<rparr>"

section \<open>Numbers, parseInt and the array methods\<close>

text \<open>
  A JavaScript number that \<^verbatim>\<open>parseInt\<close> returns is \<^verbatim>\<open>NaN\<close> or an integer; the
  integer is exact here, as it is in the source below \<open>2 ^ 53\<close>.
\<close>

datatype jsnum = NaN | Number int

text \<open>Exceptions of the source are values of this type.\<close>

datatype error = CorruptedVersionData | TypeError

definition isWhiteSpace :: "char \<Rightarrow> bool" where
  "isWhiteSpace c = (c \<in> set [CHR 0x09, CHR 0x0A, CHR 0x0B, CHR 0x0C, CHR 0x0D, CHR 0x20, CHR 0xA0])"

definition digitValue :: "char \<Rightarrow> nat" where
  "digitValue c =
     (let n = (of_char c :: nat) in
      if 48 \<le> n \<and> n \<le> 57 then n - 48
      else if 97 \<le> n \<and> n \<le> 122 then n - 87
      else if 65 \<le> n \<and> n \<le> 90 then n - 55
      else 36)"

definition isDigit :: "nat \<Rightarrow> char \<Rightarrow> bool" where
  "isDigit R c = (digitValue c < R)"

definition digitsValue :: "nat \<Rightarrow> string \<Rightarrow> nat" where
  "digitsValue R Z = foldl (\<lambda>acc c. acc * R + digitValue c) 0 Z"

text \<open>
  \<^verbatim>\<open>parseInt(string)\<close> with no radix: leading white space is skipped, a sign is read,
  a prefix \<^verbatim>\<open>0x\<close> or \<^verbatim>\<open>0X\<close> selects radix 16 (radix 10 otherwise), and the longest
  run of digits of that radix is the value; without a digit the result is \<^verbatim>\<open>NaN\<close>.
\<close>

definition parseInt :: "string \<Rightarrow> jsnum" where
  "parseInt inputString =
     (let S = dropWhile isWhiteSpace inputString;
          sign = (if startsWith S ''-'' then - 1 else 1 :: int);
          S1 = (if startsWith S ''+'' \<or> startsWith S ''-'' then tl S else S);
          hex = (startsWith S1 ''0x'' \<or> startsWith S1 ''0X'');
          R = (if hex then 16 else 10);
          S2 = (if hex then drop 2 S1 else S1);
          Z = takeWhile (isDigit R) S2
      in if Z = [] then NaN else Number (sign * int (digitsValue R Z)))"

text \<open>
  \<^verbatim>\<open>Array.prototype.sort(comparefn)\<close>. ECMAScript leaves the sequence of calls of the
  comparator to the engine and asks for a stable result; the model is a stable insertion
  sort. With two or more elements every element is handed to the comparator at least
  once, and an exception of the comparator ends the sort.
\<close>

fun insert_sorted :: "('a \<Rightarrow> 'a \<Rightarrow> error + int) \<Rightarrow> 'a \<Rightarrow> 'a list \<Rightarrow> error + 'a list" where
  "insert_sorted comparefn x [] = Inr [x]"
| "insert_sorted comparefn x (y # ys) =
     (case comparefn x y of
        Inl e \<Rightarrow> Inl e
      | Inr c \<Rightarrow>
          if c \<le> 0 then Inr (x # y # ys)
          else (case insert_sorted comparefn x ys of
                  Inl e \<Rightarrow> Inl e
                | Inr zs \<Rightarrow> Inr (y # zs)))"

fun array_sort :: "('a \<Rightarrow> 'a \<Rightarrow> error + int) \<Rightarrow> 'a list \<Rightarrow> error + 'a list" where
  "array_sort comparefn [] = Inr []"
| "array_sort comparefn (x # xs) =
     (case array_sort comparefn xs of
        Inl e \<Rightarrow> Inl e
      | Inr ys \<Rightarrow> insert_sorted comparefn x ys)"

text \<open>
  \<^verbatim>\<open>slice(start)\<close>: a negative start counts from the end and is clamped at the first
  element, a start beyond the length gives the empty array. \<^verbatim>\<open>shift()\<close> on a fresh
  array is its first element, or \<^verbatim>\<open>undefined\<close> (\<open>None\<close>) when it is empty.
\<close>

definition array_slice :: "int \<Rightarrow> 'a list \<Rightarrow> 'a list" where
  "array_slice start xs =
     (let len = int (length xs);
          k = (if start < 0 then max (len + start) 0 else min start len)
      in drop (nat k) xs)"

definition array_shift :: "'a list \<Rightarrow> 'a option" where
  "array_shift xs = (case xs of [] \<Rightarrow> None | x # _ \<Rightarrow> Some x)"

section \<open>Oldest supported major: the function\<close>

text \<open>
  The remote catalog is what \<^verbatim>\<open>window.ElectronFiddle.getKnownVersions()\<close> resolves
  to, a list of version strings; \<^verbatim>\<open>getReleasedVersions\<close> wraps each in a record.
\<close>

definition getReleasedVersions :: "string list \<Rightarrow> Version list" where
  "getReleasedVersions knownVersions =
     map (\<lambda>v. \<lparr> version = v, name = None, localPath = None, source = None, state = None \<rparr>)
       knownVersions"

text \<open>
  \<^verbatim>\<open>parseInt(process.env.NUM_STABLE_BRANCHES || '') || 4\<close>: the argument is the value
  of the environment variable when it is set; \<^verbatim>\<open>NaN\<close> and zero are falsy.
\<close>

definition NUM_BRANCHES :: "string option \<Rightarrow> int" where
  "NUM_BRANCHES env =
     (case parseInt (case env of None \<Rightarrow> [] | Some s \<Rightarrow> s) of
        NaN \<Rightarrow> 4
      | Number n \<Rightarrow> if n = 0 then 4 else n)"

text \<open>
  The comparator \<^verbatim>\<open>(a, b) => a - b\<close>; a \<^verbatim>\<open>NaN\<close> difference counts as zero in the
  sort.
\<close>

definition compare_numbers :: "jsnum \<Rightarrow> jsnum \<Rightarrow> error + int" where
  "compare_numbers a b =
     (case (a, b) of
        (Number x, Number y) \<Rightarrow> Inr (x - y)
      | _ \<Rightarrow> Inr 0)"

definition branch_markers :: "string list \<Rightarrow> jsnum list" where
  "branch_markers knownVersions =
     map (\<lambda>ver. parseInt (version ver))
       (filter (\<lambda>ver. endsWith (version ver) ''.0.0'') (getReleasedVersions knownVersions))"

definition getOldestSupportedMajor :: "string option \<Rightarrow> string list \<Rightarrow> error + jsnum option" where
  "getOldestSupportedMajor env knownVersions =
     (case array_sort compare_numbers (branch_markers knownVersions) of
        Inl e \<Rightarrow> Inl e
      | Inr sorted_majors \<Rightarrow> Inr (array_shift (array_slice (- NUM_BRANCHES env) sorted_majors)))"

section \<open>Semantic versions\<close>

text \<open>
  The package \<^verbatim>\<open>semver\<close> is not part of the repository. \<open>semver_parse\<close> models
  \<^verbatim>\<open>semver.parse\<close> in its strict mode on the strings that reach it:
  \<^verbatim>\<open>getDefaultVersion\<close> parses only strings without a hyphen, and in the strict grammar
  a pre-release tag starts with a hyphen, so such a string is a version exactly when it
  is, after trimming, an optional \<^verbatim>\<open>v\<close>, three numeric identifiers without leading
  zeros separated by dots, and optional build metadata after \<^verbatim>\<open>+\<close>. Strings with a
  hyphen are outside this model, and nothing below applies \<open>semver_parse\<close> to one. The
  \<^verbatim>\<open>version\<close> property of the parsed object is the three numbers printed with dots
  (build metadata is not part of it).
\<close>

record SemVer =
  major :: nat
  minor :: nat
  patch :: nat

definition trim :: "string \<Rightarrow> string" where
  "trim s = rev (dropWhile isWhiteSpace (rev (dropWhile isWhiteSpace s)))"

fun split_on :: "char \<Rightarrow> string \<Rightarrow> string list" where
  "split_on sep [] = [[]]"
| "split_on sep (c # cs) =
     (if c = sep then [] # split_on sep cs
      else (case split_on sep cs of
              [] \<Rightarrow> [[c]]
            | w # ws \<Rightarrow> (c # w) # ws))"

definition numeric_identifier :: "string \<Rightarrow> nat option" where
  "numeric_identifier s =
     (if s \<noteq> [] \<and> list_all (isDigit 10) s \<and> (s = ''0'' \<or> hd s \<noteq> CHR ''0'')
         \<and> int (digitsValue 10 s) \<le> 9007199254740991
      then Some (digitsValue 10 s) else None)"

definition build_identifier :: "string \<Rightarrow> bool" where
  "build_identifier s = (s \<noteq> [] \<and> list_all (\<lambda>c. isDigit 36 c \<or> c = CHR ''-'') s)"

definition semver_parse :: "string \<Rightarrow> SemVer option" where
  "semver_parse v =
     (if length v > 256 then None
      else
        let t = trim v;
            t1 = (if startsWith t ''v'' then tl t else t);
            main = takeWhile (\<lambda>c. c \<noteq> CHR ''+'') t1;
            build = dropWhile (\<lambda>c. c \<noteq> CHR ''+'') t1
        in if build \<noteq> [] \<and> \<not> list_all build_identifier (split_on CHR ''.'' (tl build)) then None
           else (case map numeric_identifier (split_on CHR ''.'' main) of
                   [Some a, Some b, Some c] \<Rightarrow> Some \<lparr> major = a, minor = b, patch = c \<rparr>
                 | _ \<Rightarrow> None))"

fun decimal :: "nat \<Rightarrow> string" where
  "decimal n =
     (if n < 10 then [''0123456789'' ! n]
      else decimal (n div 10) @ [''0123456789'' ! (n mod 10)])"

definition semver_version :: "SemVer \<Rightarrow> string" where
  "semver_version sv = decimal (major sv) @ ''.'' @ decimal (minor sv) @ ''.'' @ decimal (patch sv)"

text \<open>
  \<^verbatim>\<open>semver.compare(a, b)\<close> builds a \<^verbatim>\<open>SemVer\<close> from each argument and raises a
  \<^verbatim>\<open>TypeError\<close> for \<^verbatim>\<open>null\<close>; two versions without pre-release tags are compared by
  major, minor and patch.
\<close>

definition compareMain :: "SemVer \<Rightarrow> SemVer \<Rightarrow> int" where
  "compareMain a b =
     (if major a \<noteq> major b then (if major a < major b then - 1 else 1)
      else if minor a \<noteq> minor b then (if minor a < minor b then - 1 else 1)
      else if patch a \<noteq> patch b then (if patch a < patch b then - 1 else 1)
      else 0)"

definition semver_compare :: "SemVer option \<Rightarrow> SemVer option \<Rightarrow> error + int" where
  "semver_compare a b =
     (case (a, b) of
        (Some x, Some y) \<Rightarrow> Inr (compareMain x y)
      | _ \<Rightarrow> Inl TypeError)"

section \<open>Local store\<close>

text \<open>
  \<^verbatim>\<open>window.localStorage\<close> holds a string per key. The key \<^verbatim>\<open>version\<close> holds the
  stored preference. The two keys of \<^verbatim>\<open>VersionKeys\<close> hold JSON text, which the model
  keeps in decoded form: \<^verbatim>\<open>JSON.stringify\<close> of an array of records is the array of
  its objects, and \<^verbatim>\<open>JSON.parse\<close> gives it back. A stored string that is empty is
  falsy; one that is not JSON, or is JSON but no array, makes the \<^verbatim>\<open>try\<close> block
  throw. An element of a stored array is \<^verbatim>\<open>null\<close>, an object with a \<^verbatim>\<open>version\<close>
  property (a string, possibly empty) in the shape of the interfaces, or an object without
  one, of which the migration reads \<^verbatim>\<open>tag_name\<close>, \<^verbatim>\<open>name\<close> and \<^verbatim>\<open>url\<close>.
\<close>

datatype raw_entry =
    RawNull
  | RawVersion Version
  | RawLegacy "string option" "string option" "string option"

datatype ls_item = EmptyString | Unparsable | JsonArray "raw_entry list"

record LocalStorage =
  version_item :: "string option"
  items :: "VersionKeys \<Rightarrow> ls_item option"

definition getItem :: "LocalStorage \<Rightarrow> VersionKeys \<Rightarrow> ls_item option" where
  "getItem ls key = items ls key"

definition setItem :: "VersionKeys \<Rightarrow> ls_item \<Rightarrow> LocalStorage \<Rightarrow> LocalStorage" where
  "setItem key v ls = ls\<lparr> items := (items ls)(key \<mapsto> v) \<rparr>"

text \<open>
  \<^verbatim>\<open>input.every((entry) => !!entry.version)\<close> stops at the first entry that fails;
  reading \<^verbatim>\<open>version\<close> of \<^verbatim>\<open>null\<close> raises a \<^verbatim>\<open>TypeError\<close>.
\<close>

fun isExpectedFormat :: "raw_entry list \<Rightarrow> error + bool" where
  "isExpectedFormat [] = Inr True"
| "isExpectedFormat (RawNull # rest) = Inl TypeError"
| "isExpectedFormat (RawVersion v # rest) =
     (if version v \<noteq> [] then isExpectedFormat rest else Inr False)"
| "isExpectedFormat (RawLegacy tag_name legacy_name url # rest) = Inr False"

fun migrate_item :: "raw_entry \<Rightarrow> Version option" where
  "migrate_item (RawLegacy tag_name legacy_name url) =
     (if \<not> truthy tag_name \<or> \<not> truthy legacy_name \<or> \<not> truthy url then None
      else (case tag_name of
              None \<Rightarrow> None
            | Some t \<Rightarrow>
                Some \<lparr> version = t, name = legacy_name, localPath = url,
                       source = None, state = None \<rparr>))"
| "migrate_item item = None"

definition migrateVersions :: "raw_entry list \<Rightarrow> Version list" where
  "migrateVersions input =
     [v. Some v \<leftarrow> map migrate_item (filter (\<lambda>item. item \<noteq> RawNull) input)]"

definition isElectronVersion :: "Version \<Rightarrow> bool" where
  "isElectronVersion input = (source input \<noteq> None)"

definition saveVersions :: "VersionKeys \<Rightarrow> Version list \<Rightarrow> LocalStorage \<Rightarrow> LocalStorage" where
  "saveVersions key versions ls = setItem key (JsonArray (map RawVersion versions)) ls"

definition saveLocalVersions :: "Version list \<Rightarrow> LocalStorage \<Rightarrow> LocalStorage" where
  "saveLocalVersions versions ls =
     saveVersions VersionKeys.local
       (filter (\<lambda>v. if isElectronVersion v then source v = Some VersionSource.local else True)
          versions)
       ls"

text \<open>
  \<^verbatim>\<open>getVersions\<close>: every exception inside the \<^verbatim>\<open>try\<close> block ends in the fallback.
  The result of \<^verbatim>\<open>JSON.parse\<close> in the expected format is returned as it is; its
  entries all have a \<^verbatim>\<open>version\<close>. The fallback thunk is its value.
\<close>

definition getVersions ::
  "VersionKeys \<Rightarrow> Version list \<Rightarrow> LocalStorage \<Rightarrow> Version list \<times> LocalStorage" where
  "getVersions key fallbackMethod ls =
     (case getItem ls key of
        Some (JsonArray result) \<Rightarrow>
          (case isExpectedFormat result of
             Inl e \<Rightarrow> (fallbackMethod, ls)
           | Inr True \<Rightarrow> ([v. RawVersion v \<leftarrow> result], ls)
           | Inr False \<Rightarrow>
               if key = VersionKeys.known then (fallbackMethod, ls)
               else (let migrated = migrateVersions result
                     in (migrated, saveLocalVersions migrated ls)))
      | _ \<Rightarrow> (fallbackMethod, ls))"

definition getLocalVersions :: "LocalStorage \<Rightarrow> Version list \<times> LocalStorage" where
  "getLocalVersions ls = getVersions VersionKeys.local [] ls"


definition getLocalVersionForPath :: "string \<Rightarrow> LocalStorage \<Rightarrow> Version option \<times> LocalStorage" where
  "getLocalVersionForPath folderPath ls =
     (let (versions, ls1) = getLocalVersions ls
      in (find (\<lambda>v. localPath v = Some folderPath) versions, ls1))"

definition getElectronVersions ::
  "(string \<Rightarrow> string) \<Rightarrow> (string \<Rightarrow> string) \<Rightarrow> (string \<Rightarrow> bool) \<Rightarrow> string list \<Rightarrow> LocalStorage
     \<Rightarrow> Version list \<times> LocalStorage" where
  "getElectronVersions normalizeVersion getExecPath existsSync knownVersions ls =
     (let (locals, ls1) = getLocalVersions ls
      in (map (makeRunnable normalizeVersion getExecPath existsSync)
            (getReleasedVersions knownVersions @ locals), ls1))"

section \<open>Default version selector\<close>

text \<open>
  \<^verbatim>\<open>getDefaultVersion\<close>: the stored preference wins when it is truthy and is the
  \<^verbatim>\<open>version\<close> of a candidate. Otherwise the candidates without a hyphen are parsed
  and sorted with \<^verbatim>\<open>(a, b) => -semver.compare(a!, b!)\<close>, which is
  \<open>compare_descending\<close>; \<^verbatim>\<open>shift()\<close> gives the
  first of them, which is \<^verbatim>\<open>undefined\<close> for the empty array and \<^verbatim>\<open>null\<close> for a
  string that did not parse.
\<close>

definition compare_descending :: "SemVer option \<Rightarrow> SemVer option \<Rightarrow> error + int" where
  "compare_descending a b =
     (case semver_compare a b of
        Inl e \<Rightarrow> Inl e
      | Inr c \<Rightarrow> Inr (- c))"

definition getDefaultVersion :: "LocalStorage \<Rightarrow> Version list \<Rightarrow> error + string" where
  "getDefaultVersion ls versions =
     (case (if truthy (version_item ls)
               \<and> list_ex (\<lambda>ver. Some (version ver) = version_item ls) versions
            then version_item ls else None) of
        Some key \<Rightarrow> Inr key
      | None \<Rightarrow>
          (case array_sort compare_descending
                  (map (\<lambda>ver. semver_parse (version ver))
                     (filter (\<lambda>ver. \<not> str_includes (version ver) ''-'') versions)) of
             Inl e \<Rightarrow> Inl e
           | Inr sorted_versions \<Rightarrow>
               (case array_shift sorted_versions of
                  Some (Some latestStable) \<Rightarrow> Inr (semver_version latestStable)
                | _ \<Rightarrow> Inl CorruptedVersionData)))"

section \<open>Substring tests\<close>

lemma str_includes_iff: "str_includes s sub \<longleftrightarrow> (\<exists>a b. s = a @ sub @ b)"
proof (induction s)
  case Nil
  then show ?case by auto
next
  case (Cons c cs)
  show ?case
  proof (cases "prefix sub (c # cs)")
    case True
    then obtain b where "c # cs = sub @ b" by (auto simp: prefix_def)
    then have "c # cs = [] @ sub @ b" by simp
    with True show ?thesis by (metis str_includes.simps(2))
  next
    case False
    have "(\<exists>a b. c # cs = a @ sub @ b) \<longleftrightarrow> (\<exists>a b. cs = a @ sub @ b)"
    proof
      assume "\<exists>a b. c # cs = a @ sub @ b"
      then obtain a b where ab: "c # cs = a @ sub @ b" by blast
      show "\<exists>a b. cs = a @ sub @ b"
      proof (cases a)
        case Nil
        with ab have "prefix sub (c # cs)" by (simp add: prefix_def)
        with False show ?thesis by simp
      next
        case (Cons a0 a')
        with ab have "cs = a' @ sub @ b" by simp
        then show ?thesis by blast
      qed
    next
      assume "\<exists>a b. cs = a @ sub @ b"
      then obtain a b where "cs = a @ sub @ b" by blast
      then have "c # cs = (c # a) @ sub @ b" by simp
      then show "\<exists>a b. c # cs = a @ sub @ b" by blast
    qed
    with False Cons.IH show ?thesis by simp
  qed
qed

text \<open>
  C6. For every version string the classifier answers beta when the string contains
  "alpha" or "beta" (as a contiguous substring), otherwise nightly when it contains
  "nightly", otherwise stable; so "10.0.0-alpha-nightly" is beta, "10.0.0-nightly.1" is
  nightly and "10.0.0" is stable.
\<close>

theorem getReleaseChannel_rules:
  "getReleaseChannel (OfString s) =
     (if (\<exists>a b. s = a @ ''alpha'' @ b) \<or> (\<exists>a b. s = a @ ''beta'' @ b) then beta
      else if (\<exists>a b. s = a @ ''nightly'' @ b) then nightly
      else stable)
   \<and> getReleaseChannel (OfString ''10.0.0-alpha-nightly'') = beta
   \<and> getReleaseChannel (OfString ''10.0.0-beta.1'') = beta
   \<and> getReleaseChannel (OfString ''10.0.0-nightly.1'') = nightly
   \<and> getReleaseChannel (OfString ''10.0.0'') = stable"
proof -
  have general: "getReleaseChannel (OfString s) =
     (if (\<exists>a b. s = a @ ''alpha'' @ b) \<or> (\<exists>a b. s = a @ ''beta'' @ b) then beta
      else if (\<exists>a b. s = a @ ''nightly'' @ b) then nightly
      else stable)"
    unfolding getReleaseChannel_def Let_def str_includes_iff by auto
  have e1: "getReleaseChannel (OfString ''10.0.0-alpha-nightly'') = beta"
    by (simp add: getReleaseChannel_def)
  have e2: "getReleaseChannel (OfString ''10.0.0-beta.1'') = beta"
    by (simp add: getReleaseChannel_def)
  have e3: "getReleaseChannel (OfString ''10.0.0-nightly.1'') = nightly"
    by (simp add: getReleaseChannel_def)
  have e4: "getReleaseChannel (OfString ''10.0.0'') = stable"
    by (simp add: getReleaseChannel_def)
  from general e1 e2 e3 e4 show ?thesis by blast
qed

section \<open>Install state and runnable versions\<close>

text \<open>
  C7. For every record: without a \<^verbatim>\<open>localPath\<close> the resolver answers missing whatever
  the path layout and the disk are (it does not consult them); with a \<^verbatim>\<open>localPath\<close>
  it answers installed exactly when the executable path computed from it exists on the
  disk, and missing otherwise.
\<close>

theorem getVersionState_resolver:
  "(localPath ver = None \<longrightarrow> (\<forall>layout disk. getVersionState layout disk ver = missing))
   \<and> (\<forall>p. localPath ver = Some p \<longrightarrow>
         (getVersionState getExecPath existsSync ver = installed \<longleftrightarrow> existsSync (getExecPath p))
       \<and> (getVersionState getExecPath existsSync ver = missing \<longleftrightarrow> \<not> existsSync (getExecPath p)))"
  by (simp add: getVersionState_def)

theorem getVersionState_resolver_witness:
  "localPath \<lparr> version = ''10.0.0'', name = None, localPath = None, source = None, state = None \<rparr> = None
   \<and> getVersionState (\<lambda>p. p @ ''/electron'') (\<lambda>p. True)
        \<lparr> version = ''10.0.0'', name = None, localPath = None, source = None, state = None \<rparr> = missing
   \<and> getVersionState (\<lambda>p. p @ ''/electron'') (\<lambda>p. p = ''/builds/a/electron'')
        \<lparr> version = ''10.0.0'', name = Some ''a'', localPath = Some ''/builds/a'', source = None, state = None \<rparr>
       = installed
   \<and> getVersionState (\<lambda>p. p @ ''/electron'') (\<lambda>p. p = ''/builds/a/electron'')
        \<lparr> version = ''10.0.0'', name = Some ''b'', localPath = Some ''/builds/b'', source = None, state = None \<rparr>
       = missing"
proof -
  let ?r = "\<lparr> version = ''10.0.0'', name = None, localPath = None, source = None, state = None \<rparr>"
  let ?a = "\<lparr> version = ''10.0.0'', name = Some ''a'', localPath = Some ''/builds/a'', source = None, state = None \<rparr>"
  let ?b = "\<lparr> version = ''10.0.0'', name = Some ''b'', localPath = Some ''/builds/b'', source = None, state = None \<rparr>"
  let ?layout = "\<lambda>p. p @ ''/electron''"
  let ?disk = "\<lambda>p. p = ''/builds/a/electron''"
  have r0: "localPath ?r = None" by simp
  with getVersionState_resolver[of ?r]
  have r: "getVersionState ?layout (\<lambda>p. True) ?r = missing" by blast
  have "localPath ?a = Some ''/builds/a''" and "?disk (?layout ''/builds/a'')" by simp_all
  with getVersionState_resolver[of ?a ?layout ?disk]
  have a: "getVersionState ?layout ?disk ?a = installed" by blast
  have "localPath ?b = Some ''/builds/b''" and "\<not> ?disk (?layout ''/builds/b'')" by simp_all
  with getVersionState_resolver[of ?b ?layout ?disk]
  have b: "getVersionState ?layout ?disk ?b = missing" by blast
  from r0 r a b show ?thesis by blast
qed

text \<open>
  C9. \<^verbatim>\<open>makeRunnable\<close> derives the source from the truthiness of \<^verbatim>\<open>localPath\<close> and
  the state from \<^verbatim>\<open>localPath !== undefined\<close>. For the empty string the two tests
  differ: the source is remote, and the state is installed as soon as the path computed
  from the empty folder exists. The record below is reported remote and installed.
\<close>

theorem makeRunnable_empty_localPath:
  "source (makeRunnable id (\<lambda>folder. if folder = [] then ''electron'' else folder @ ''/electron'')
             (\<lambda>p. p = ''electron'')
             \<lparr> version = ''10.0.0'', name = None, localPath = Some [], source = None, state = None \<rparr>)
     = Some VersionSource.remote
   \<and> state (makeRunnable id (\<lambda>folder. if folder = [] then ''electron'' else folder @ ''/electron'')
             (\<lambda>p. p = ''electron'')
             \<lparr> version = ''10.0.0'', name = None, localPath = Some [], source = None, state = None \<rparr>)
     = Some installed"
  by (simp add: makeRunnable_def getVersionState_def truthy_def)

text \<open>With no \<^verbatim>\<open>localPath\<close> at all the source is remote and the state is missing.\<close>

lemma makeRunnable_absent_localPath:
  "localPath ver = None \<Longrightarrow>
     source (makeRunnable n layout disk ver) = Some VersionSource.remote
     \<and> state (makeRunnable n layout disk ver) = Some missing"
  by (simp add: makeRunnable_def getVersionState_def truthy_def)

section \<open>Oldest supported major\<close>

lemma insert_sorted_numbers:
  "insert_sorted compare_numbers (Number x) (map Number ys) = Inr (map Number (insort x ys))"
  by (induction ys) (auto simp: compare_numbers_def)

lemma array_sort_numbers:
  "array_sort compare_numbers (map Number xs) = Inr (map Number (sort xs))"
  by (induction xs) (simp_all add: insert_sorted_numbers)

lemma hd_sort_Min:
  fixes xs :: "int list"
  assumes "xs \<noteq> []"
  shows "hd (sort xs) = Min (set xs)"
proof -
  from assms have "sort xs \<noteq> []" by (metis length_0_conv length_sort)
  then obtain y ys where ys: "sort xs = y # ys" by (cases "sort xs") auto
  have "sorted (y # ys)" using ys by (metis sorted_sort)
  then have le: "\<forall>z \<in> set (y # ys). y \<le> z" by auto
  have st: "set (y # ys) = set xs" using ys by (metis set_sort)
  have "Min (set xs) = y"
  proof (rule Min_eqI)
    show "finite (set xs)" by simp
    show "\<And>z. z \<in> set xs \<Longrightarrow> y \<le> z" using le st by blast
    show "y \<in> set xs" using st by auto
  qed
  with ys show ?thesis by simp
qed

lemma branch_markers_eq:
  "branch_markers catalog = map parseInt (filter (\<lambda>v. endsWith v ''.0.0'') catalog)"
  by (simp add: branch_markers_def getReleasedVersions_def filter_map comp_def)

lemma getOldestSupportedMajor_numbers:
  assumes "map parseInt (filter (\<lambda>v. endsWith v ''.0.0'') catalog) = map Number majors"
  shows "getOldestSupportedMajor env catalog =
           Inr (array_shift (array_slice (- NUM_BRANCHES env) (map Number (sort majors))))"
  using assms by (simp add: getOldestSupportedMajor_def branch_markers_eq array_sort_numbers)

lemma getOldestSupportedMajor_total:
  "\<exists>r. getOldestSupportedMajor env catalog = Inr r"
proof -
  have ins: "\<exists>zs. insert_sorted compare_numbers x ys = Inr zs" for x ys
  proof (induction ys)
    case Nil
    show ?case by simp
  next
    case (Cons y ys)
    then obtain zs where zs: "insert_sorted compare_numbers x ys = Inr zs" by blast
    obtain c where c: "compare_numbers x y = Inr c"
      by (cases x; cases y) (simp_all add: compare_numbers_def)
    show ?case using zs c by simp
  qed
  have "\<exists>ys. array_sort compare_numbers xs = Inr ys" for xs
  proof (induction xs)
    case Nil
    show ?case by simp
  next
    case (Cons x xs)
    then obtain ys where "array_sort compare_numbers xs = Inr ys" by blast
    with ins[of x ys] show ?case by auto
  qed
  then obtain ys where "array_sort compare_numbers (branch_markers catalog) = Inr ys" by blast
  then show ?thesis by (simp add: getOldestSupportedMajor_def)
qed

text \<open>
  C1 (as amended). When the remote catalog has no branch marker (no version ending in
  ".0.0"), \<open>getOldestSupportedMajor\<close> returns \<^verbatim>\<open>undefined\<close>. When it has at least one
  branch marker but fewer than the supported-branch count, each with a leading integer,
  the function returns the smallest of their majors: \<^verbatim>\<open>slice\<close> with a negative start
  beyond the length gives the whole array. In neither case is an error raised.
\<close>

theorem getOldestSupportedMajor_few_markers:
  "(filter (\<lambda>v. endsWith v ''.0.0'') catalog = [] \<longrightarrow> getOldestSupportedMajor env catalog = Inr None)
   \<and> (map parseInt (filter (\<lambda>v. endsWith v ''.0.0'') catalog) = map Number majors
        \<and> majors \<noteq> [] \<and> int (length majors) < NUM_BRANCHES env
      \<longrightarrow> getOldestSupportedMajor env catalog = Inr (Some (Number (Min (set majors)))))
   \<and> (\<exists>r. getOldestSupportedMajor env catalog = Inr r)"
proof (intro conjI impI)
  assume "filter (\<lambda>v. endsWith v ''.0.0'') catalog = []"
  then show "getOldestSupportedMajor env catalog = Inr None"
    by (simp add: getOldestSupportedMajor_def branch_markers_eq array_slice_def array_shift_def)
next
  assume a: "map parseInt (filter (\<lambda>v. endsWith v ''.0.0'') catalog) = map Number majors
        \<and> majors \<noteq> [] \<and> int (length majors) < NUM_BRANCHES env"
  then have ne: "sort majors \<noteq> []" by (metis length_0_conv length_sort)
  from a have sl: "array_slice (- NUM_BRANCHES env) (map Number (sort majors)) = map Number (sort majors)"
    by (simp add: array_slice_def Let_def)
  from ne have "array_shift (map Number (sort majors)) = Some (Number (hd (sort majors)))"
    by (cases "sort majors") (simp_all add: array_shift_def)
  with a sl show "getOldestSupportedMajor env catalog = Inr (Some (Number (Min (set majors))))"
    by (simp add: getOldestSupportedMajor_numbers hd_sort_Min)
next
  show "\<exists>r. getOldestSupportedMajor env catalog = Inr r"
    by (rule getOldestSupportedMajor_total)
qed

theorem getOldestSupportedMajor_few_markers_witness:
  "map parseInt (filter (\<lambda>v. endsWith v ''.0.0'') [''10.0.0'', ''10.1.0'', ''11.0.0'']) = map Number [10, 11]
   \<and> int (length [10, 11 :: int]) < NUM_BRANCHES None
   \<and> getOldestSupportedMajor None [''10.0.0'', ''10.1.0'', ''11.0.0''] = Inr (Some (Number 10))
   \<and> filter (\<lambda>v. endsWith v ''.0.0'') [''10.1.0''] = []
   \<and> getOldestSupportedMajor None [''10.1.0''] = Inr None"
proof -
  have m: "map parseInt (filter (\<lambda>v. endsWith v ''.0.0'') [''10.0.0'', ''10.1.0'', ''11.0.0'']) = map Number [10, 11]"
    by code_simp
  have n: "int (length [10, 11 :: int]) < NUM_BRANCHES None" by code_simp
  have e: "filter (\<lambda>v. endsWith v ''.0.0'') [''10.1.0''] = []" by code_simp
  from getOldestSupportedMajor_few_markers[of "[''10.0.0'', ''10.1.0'', ''11.0.0'']" None "[10, 11]"] m n
  have r1: "getOldestSupportedMajor None [''10.0.0'', ''10.1.0'', ''11.0.0''] = Inr (Some (Number 10))"
    by simp
  from getOldestSupportedMajor_few_markers[of "[''10.1.0'']" None "[]"] e
  have r2: "getOldestSupportedMajor None [''10.1.0''] = Inr None" by blast
  from m n r1 e r2 show ?thesis by blast
qed

text \<open>
  The claim as stated fails: with the count 4 and the two branch markers of this catalog
  the result is the major 10, not \<^verbatim>\<open>undefined\<close>.
\<close>

theorem getOldestSupportedMajor_underflow_counterexample:
  "int (length (filter (\<lambda>v. endsWith v ''.0.0'') [''11.0.0'', ''10.1.0'', ''10.0.0''])) < NUM_BRANCHES (Some ''4'')
   \<and> getOldestSupportedMajor (Some ''4'') [''11.0.0'', ''10.1.0'', ''10.0.0''] = Inr (Some (Number 10))
   \<and> getOldestSupportedMajor (Some ''4'') [''11.0.0'', ''10.1.0'', ''10.0.0''] \<noteq> Inr None"
  by code_simp



section \<open>Default version\<close>

text \<open>
  The comparator of the sort orders parsed versions from the newest to the oldest, and
  raises a \<^verbatim>\<open>TypeError\<close> as soon as it is handed a \<^verbatim>\<open>null\<close>.
\<close>

lemma str_includes_char: "str_includes s [c] \<longleftrightarrow> c \<in> set s"
proof -
  have "(\<exists>a b. s = a @ [c] @ b) \<longleftrightarrow> c \<in> set s"
    by (metis append_Cons append_Nil in_set_conv_decomp)
  then show ?thesis by (simp add: str_includes_iff)
qed

lemma compareMain_trans:
  "compareMain a b \<le> 0 \<Longrightarrow> compareMain b c \<le> 0 \<Longrightarrow> compareMain a c \<le> 0"
  by (auto simp: compareMain_def split: if_splits)

lemma compareMain_flip: "0 \<le> compareMain a b \<longleftrightarrow> compareMain b a \<le> 0"
  by (auto simp: compareMain_def split: if_splits)

lemma compare_descending_Some:
  "compare_descending (Some x) (Some y) = Inr (- compareMain x y)"
  by (simp add: compare_descending_def semver_compare_def)

lemma compare_descending_None:
  "compare_descending None b = Inl TypeError" "compare_descending a None = Inl TypeError"
  by (cases a; simp add: compare_descending_def semver_compare_def)+

lemma insert_sorted_semver:
  assumes "sorted_wrt (\<lambda>a b. 0 \<le> compareMain a b) ys"
  shows "\<exists>zs. insert_sorted compare_descending (Some x) (map Some ys) = Inr (map Some zs)
              \<and> mset zs = add_mset x (mset ys)
              \<and> sorted_wrt (\<lambda>a b. 0 \<le> compareMain a b) zs"
  using assms
proof (induction ys)
  case Nil
  show ?case by simp
next
  case (Cons y ys)
  show ?case
  proof (cases "0 \<le> compareMain x y")
    case True
    have "\<forall>z \<in> set ys. 0 \<le> compareMain x z"
    proof
      fix z assume "z \<in> set ys"
      with Cons.prems have "0 \<le> compareMain y z" by simp
      with True show "0 \<le> compareMain x z"
        using compareMain_trans[of z y x] by (simp add: compareMain_flip)
    qed
    with True Cons.prems
    have "sorted_wrt (\<lambda>a b. 0 \<le> compareMain a b) (x # y # ys)" by simp
    moreover have "insert_sorted compare_descending (Some x) (map Some (y # ys)) = Inr (map Some (x # y # ys))"
      using True by (simp add: compare_descending_Some)
    ultimately show ?thesis by (metis mset.simps(2))
  next
    case False
    from Cons.prems have "sorted_wrt (\<lambda>a b. 0 \<le> compareMain a b) ys" by simp
    with Cons.IH obtain zs where zs:
      "insert_sorted compare_descending (Some x) (map Some ys) = Inr (map Some zs)"
      "mset zs = add_mset x (mset ys)" "sorted_wrt (\<lambda>a b. 0 \<le> compareMain a b) zs"
      by blast
    from False have yx: "0 \<le> compareMain y x"
      by (auto simp: compareMain_def split: if_splits)
    have "set zs = insert x (set ys)" using zs(2) by (metis set_mset_add_mset_insert set_mset_mset)
    with yx Cons.prems zs(3) have "sorted_wrt (\<lambda>a b. 0 \<le> compareMain a b) (y # zs)" by auto
    moreover have "insert_sorted compare_descending (Some x) (map Some (y # ys)) = Inr (map Some (y # zs))"
      using False zs(1) by (simp add: compare_descending_Some)
    moreover have "mset (y # zs) = add_mset x (mset (y # ys))" using zs(2) by simp
    ultimately show ?thesis by blast
  qed
qed

lemma array_sort_semver:
  "\<exists>zs. array_sort compare_descending (map Some xs) = Inr (map Some zs)
        \<and> mset zs = mset xs
        \<and> sorted_wrt (\<lambda>a b. 0 \<le> compareMain a b) zs"
proof (induction xs)
  case Nil
  show ?case by simp
next
  case (Cons x xs)
  then obtain ys where ys: "array_sort compare_descending (map Some xs) = Inr (map Some ys)"
    "mset ys = mset xs" "sorted_wrt (\<lambda>a b. 0 \<le> compareMain a b) ys" by blast
  from insert_sorted_semver[OF ys(3), of x] obtain zs where
    "insert_sorted compare_descending (Some x) (map Some ys) = Inr (map Some zs)"
    "mset zs = add_mset x (mset ys)" "sorted_wrt (\<lambda>a b. 0 \<le> compareMain a b) zs" by blast
  with ys show ?case by auto
qed

lemma all_parsed: "None \<notin> set xs \<Longrightarrow> \<exists>ys. xs = map Some ys"
proof (induction xs)
  case Nil
  show ?case by simp
next
  case (Cons x xs)
  then obtain ys where "xs = map Some ys" by auto
  moreover from Cons.prems obtain v where "x = Some v" by (cases x) auto
  ultimately have "x # xs = map Some (v # ys)" by simp
  then show ?case by (rule exI[of _ "v # ys"])
qed

lemma array_sort_null:
  "None \<in> set xs \<Longrightarrow> 2 \<le> length xs \<Longrightarrow> array_sort compare_descending xs = Inl TypeError"
proof (induction xs)
  case Nil
  then show ?case by simp
next
  case (Cons x xs)
  show ?case
  proof (cases "None \<in> set xs")
    case True
    show ?thesis
    proof (cases "2 \<le> length xs")
      case True
      with \<open>None \<in> set xs\<close> Cons.IH show ?thesis by simp
    next
      case False
      then have "length xs \<le> 1" by simp
      with \<open>None \<in> set xs\<close> have "xs = [None]"
        by (cases xs) (auto simp: le_Suc_eq)
      then show ?thesis by (simp add: compare_descending_None)
    qed
  next
    case False
    with Cons.prems have x: "x = None" by simp
    from False obtain ys where ys: "xs = map Some ys" using all_parsed by blast
    from Cons.prems have "ys \<noteq> []" using ys by auto
    obtain zs where zs: "array_sort compare_descending (map Some ys) = Inr (map Some zs)" "mset zs = mset ys"
      using array_sort_semver by blast
    with \<open>ys \<noteq> []\<close> have "zs \<noteq> []" by auto
    then obtain z zs' where "zs = z # zs'" by (cases zs) auto
    with zs ys x show ?thesis by (simp add: compare_descending_None)
  qed
qed

lemma getDefaultVersion_stable_step:
  assumes "\<not> (truthy (version_item ls) \<and> list_ex (\<lambda>ver. Some (version ver) = version_item ls) versions)"
  shows "getDefaultVersion ls versions =
           (case array_sort compare_descending
                   (map (\<lambda>ver. semver_parse (version ver))
                      (filter (\<lambda>ver. CHR ''-'' \<notin> set (version ver)) versions)) of
              Inl e \<Rightarrow> Inl e
            | Inr sorted_versions \<Rightarrow>
                (case sorted_versions of
                   Some latestStable # _ \<Rightarrow> Inr (semver_version latestStable)
                 | _ \<Rightarrow> Inl CorruptedVersionData))"
  using assms
  by (auto simp: getDefaultVersion_def str_includes_char array_shift_def
           split: sum.splits list.splits option.splits)

lemma no_match_guard:
  assumes "version_item ls \<notin> Some ` version ` set versions"
  shows "\<not> (truthy (version_item ls) \<and> list_ex (\<lambda>ver. Some (version ver) = version_item ls) versions)"
proof
  assume "truthy (version_item ls) \<and> list_ex (\<lambda>ver. Some (version ver) = version_item ls) versions"
  then obtain ver where ver: "ver \<in> set versions" "Some (version ver) = version_item ls"
    by (auto simp: list_ex_iff)
  from ver(2) have "version_item ls = Some (version ver)" by simp
  with ver(1) have "version_item ls \<in> Some ` version ` set versions" by simp
  with assms show False by blast
qed

lemma getDefaultVersion_not_corrupted:
  assumes "ver \<in> set versions" and "CHR ''-'' \<notin> set (version ver)"
      and "semver_parse (version ver) = Some sv"
  shows "getDefaultVersion ls versions \<noteq> Inl CorruptedVersionData"
proof (cases "truthy (version_item ls) \<and> list_ex (\<lambda>ver. Some (version ver) = version_item ls) versions")
  case True
  then obtain key where "version_item ls = Some key" by (cases "version_item ls") (auto simp: truthy_def)
  with True show ?thesis by (simp add: getDefaultVersion_def)
next
  case False
  let ?P = "map (\<lambda>ver. semver_parse (version ver)) (filter (\<lambda>ver. CHR ''-'' \<notin> set (version ver)) versions)"
  from assms have sv: "Some sv \<in> set ?P" by force
  show ?thesis
  proof (cases "None \<in> set ?P")
    case True
    have "2 \<le> length ?P"
    proof (rule ccontr)
      assume "\<not> 2 \<le> length ?P"
      then have "length ?P \<le> 1" by simp
      then obtain x where "?P = [x]" using sv by (cases ?P) (auto simp: le_Suc_eq)
      with True sv show False by simp
    qed
    with True have "array_sort compare_descending ?P = Inl TypeError" by (rule array_sort_null)
    then show ?thesis by (simp add: getDefaultVersion_stable_step[OF False])
  next
    case False
    then obtain svs where svs: "?P = map Some svs" using all_parsed by blast
    obtain zs where zs: "array_sort compare_descending (map Some svs) = Inr (map Some zs)" "mset zs = mset svs"
      using array_sort_semver by blast
    from sv svs have "svs \<noteq> []" by auto
    with zs(2) have "zs \<noteq> []" by auto
    then obtain z zs' where "zs = z # zs'" by (cases zs) auto
    with zs(1) svs show ?thesis
      by (simp add: getDefaultVersion_stable_step[OF \<open>\<not> (truthy (version_item ls) \<and> list_ex (\<lambda>ver. Some (version ver) = version_item ls) versions)\<close>])
  qed
qed

text \<open>
  C3 (as amended). For every candidate list and every non-empty stored preference that
  equals the \<^verbatim>\<open>version\<close> of some candidate, \<open>getDefaultVersion\<close> returns that
  string as it is, whatever other candidates the list holds (a newer stable one
  included).
\<close>

theorem getDefaultVersion_stored_preference:
  assumes "version_item ls = Some k" and "k \<noteq> []" and "k \<in> version ` set versions"
  shows "getDefaultVersion ls versions = Inr k"
  using assms by (auto simp: getDefaultVersion_def truthy_def list_ex_iff)

theorem getDefaultVersion_stored_preference_witness:
  "version_item \<lparr> version_item = Some ''9.0.0'', items = \<lambda>key. None \<rparr> = Some ''9.0.0''
   \<and> ''9.0.0'' \<noteq> []
   \<and> ''9.0.0'' \<in> version ` set
        [\<lparr> version = ''10.0.0'', name = None, localPath = None, source = Some VersionSource.remote, state = Some missing \<rparr>,
         \<lparr> version = ''9.0.0'', name = None, localPath = None, source = Some VersionSource.remote, state = Some missing \<rparr>]
   \<and> getDefaultVersion \<lparr> version_item = Some ''9.0.0'', items = \<lambda>key. None \<rparr>
        [\<lparr> version = ''10.0.0'', name = None, localPath = None, source = Some VersionSource.remote, state = Some missing \<rparr>,
         \<lparr> version = ''9.0.0'', name = None, localPath = None, source = Some VersionSource.remote, state = Some missing \<rparr>]
       = Inr ''9.0.0''"
proof -
  let ?ls = "\<lparr> version_item = Some ''9.0.0'', items = \<lambda>key. None \<rparr>"
  let ?vs = "[\<lparr> version = ''10.0.0'', name = None, localPath = None, source = Some VersionSource.remote, state = Some missing \<rparr>,
         \<lparr> version = ''9.0.0'', name = None, localPath = None, source = Some VersionSource.remote, state = Some missing \<rparr>]"
  have h1: "version_item ?ls = Some ''9.0.0''" by simp
  have h2: "''9.0.0'' \<noteq> []" by simp
  have h3: "''9.0.0'' \<in> version ` set ?vs" by simp
  from getDefaultVersion_stored_preference[OF h1 h2 h3] h1 h2 h3 show ?thesis by blast
qed

text \<open>
  The claim as stated fails for the empty string: \<^verbatim>\<open>key && ...\<close> treats an empty
  stored preference as absent, so with a candidate whose version is the empty string the
  preference matches and is still not returned.
\<close>

theorem getDefaultVersion_empty_preference_counterexample:
  "version_item \<lparr> version_item = Some [], items = \<lambda>key. None \<rparr> = Some []
   \<and> [] \<in> version ` set
        [\<lparr> version = [], name = None, localPath = None, source = Some VersionSource.remote, state = Some missing \<rparr>]
   \<and> getDefaultVersion \<lparr> version_item = Some [], items = \<lambda>key. None \<rparr>
        [\<lparr> version = [], name = None, localPath = None, source = Some VersionSource.remote, state = Some missing \<rparr>]
       = Inl CorruptedVersionData"
proof -
  have "getDefaultVersion \<lparr> version_item = Some [], items = \<lambda>key. None \<rparr>
        [\<lparr> version = [], name = None, localPath = None, source = Some VersionSource.remote, state = Some missing \<rparr>]
       = Inl CorruptedVersionData" by code_simp
  then show ?thesis by simp
qed



text \<open>
  C5. When the stored preference matches no candidate and no candidate is free of a
  hyphen, \<open>getDefaultVersion\<close> raises the corrupted-version-data error. It never raises
  that error when some candidate without a hyphen is a valid semantic version. A list of
  pre-releases only raises it.
\<close>

theorem getDefaultVersion_corrupted:
  "(version_item ls \<notin> Some ` version ` set versions
      \<and> filter (\<lambda>ver. CHR ''-'' \<notin> set (version ver)) versions = []
    \<longrightarrow> getDefaultVersion ls versions = Inl CorruptedVersionData)
   \<and> ((\<exists>ver. ver \<in> set versions \<and> CHR ''-'' \<notin> set (version ver) \<and> semver_parse (version ver) \<noteq> None)
    \<longrightarrow> getDefaultVersion ls versions \<noteq> Inl CorruptedVersionData)
   \<and> getDefaultVersion \<lparr> version_item = None, items = \<lambda>key. None \<rparr>
        [\<lparr> version = ''11.0.0-beta.1'', name = None, localPath = None, source = Some VersionSource.remote, state = Some missing \<rparr>,
         \<lparr> version = ''12.0.0-nightly.20230101'', name = None, localPath = None, source = Some VersionSource.remote, state = Some missing \<rparr>]
       = Inl CorruptedVersionData"
proof (intro conjI impI)
  assume a: "version_item ls \<notin> Some ` version ` set versions
      \<and> filter (\<lambda>ver. CHR ''-'' \<notin> set (version ver)) versions = []"
  then show "getDefaultVersion ls versions = Inl CorruptedVersionData"
    by (simp add: getDefaultVersion_stable_step[OF no_match_guard])
next
  assume "\<exists>ver. ver \<in> set versions \<and> CHR ''-'' \<notin> set (version ver) \<and> semver_parse (version ver) \<noteq> None"
  then obtain ver sv where "ver \<in> set versions" "CHR ''-'' \<notin> set (version ver)"
    "semver_parse (version ver) = Some sv" by auto
  then show "getDefaultVersion ls versions \<noteq> Inl CorruptedVersionData"
    by (rule getDefaultVersion_not_corrupted)
next
  show "getDefaultVersion \<lparr> version_item = None, items = \<lambda>key. None \<rparr>
        [\<lparr> version = ''11.0.0-beta.1'', name = None, localPath = None, source = Some VersionSource.remote, state = Some missing \<rparr>,
         \<lparr> version = ''12.0.0-nightly.20230101'', name = None, localPath = None, source = Some VersionSource.remote, state = Some missing \<rparr>]
       = Inl CorruptedVersionData" by code_simp
qed

theorem getDefaultVersion_corrupted_witness:
  "version_item \<lparr> version_item = Some ''13.0.0'', items = \<lambda>key. None \<rparr>
     \<notin> Some ` version ` set
        [\<lparr> version = ''11.0.0-beta.1'', name = None, localPath = None, source = Some VersionSource.remote, state = Some missing \<rparr>]
   \<and> filter (\<lambda>ver. CHR ''-'' \<notin> set (version ver))
        [\<lparr> version = ''11.0.0-beta.1'', name = None, localPath = None, source = Some VersionSource.remote, state = Some missing \<rparr>] = []
   \<and> getDefaultVersion \<lparr> version_item = Some ''13.0.0'', items = \<lambda>key. None \<rparr>
        [\<lparr> version = ''11.0.0-beta.1'', name = None, localPath = None, source = Some VersionSource.remote, state = Some missing \<rparr>]
       = Inl CorruptedVersionData
   \<and> semver_parse ''10.0.0'' \<noteq> None
   \<and> getDefaultVersion \<lparr> version_item = None, items = \<lambda>key. None \<rparr>
        [\<lparr> version = ''not a version'', name = None, localPath = None, source = Some VersionSource.remote, state = Some missing \<rparr>,
         \<lparr> version = ''10.0.0'', name = None, localPath = None, source = Some VersionSource.remote, state = Some missing \<rparr>]
       \<noteq> Inl CorruptedVersionData"
proof -
  let ?ls = "\<lparr> version_item = Some ''13.0.0'', items = \<lambda>key. None \<rparr>"
  let ?pre = "[\<lparr> version = ''11.0.0-beta.1'', name = None, localPath = None, source = Some VersionSource.remote, state = Some missing \<rparr>]"
  let ?fresh = "\<lparr> version_item = None, items = \<lambda>key. None \<rparr>"
  let ?bad = "\<lparr> version = ''not a version'', name = None, localPath = None, source = Some VersionSource.remote, state = Some missing \<rparr>"
  let ?ok = "\<lparr> version = ''10.0.0'', name = None, localPath = None, source = Some VersionSource.remote, state = Some missing \<rparr>"
  have h1: "version_item ?ls \<notin> Some ` version ` set ?pre" by simp
  have h2: "filter (\<lambda>ver. CHR ''-'' \<notin> set (version ver)) ?pre = []" by simp
  from getDefaultVersion_corrupted[of ?ls ?pre] h1 h2
  have r1: "getDefaultVersion ?ls ?pre = Inl CorruptedVersionData" by blast
  have p: "semver_parse ''10.0.0'' \<noteq> None" by code_simp
  then have "\<exists>ver. ver \<in> set [?bad, ?ok] \<and> CHR ''-'' \<notin> set (version ver) \<and> semver_parse (version ver) \<noteq> None"
    by (intro exI[of _ ?ok]) simp
  with getDefaultVersion_corrupted[of ?fresh "[?bad, ?ok]"]
  have r2: "getDefaultVersion ?fresh [?bad, ?ok] \<noteq> Inl CorruptedVersionData" by blast
  from h1 h2 r1 p r2 show ?thesis by blast
qed

section \<open>Saving and reloading local versions\<close>

text \<open>
  What \<open>saveVersions\<close> writes is in the expected format exactly when every entry has
  a non-empty version; otherwise the reload takes the migration path, which drops every
  entry in the current shape.
\<close>

lemma getItem_setItem: "getItem (setItem key v ls) key = Some v"
  by (simp add: getItem_def setItem_def)

lemma isExpectedFormat_stringified:
  "isExpectedFormat (map RawVersion vs) = Inr (list_all (\<lambda>v. version v \<noteq> []) vs)"
  by (induction vs) simp_all

lemma parse_stringified: "[v. RawVersion v \<leftarrow> map RawVersion vs] = vs"
  by (induction vs) simp_all

lemma migrateVersions_stringified: "migrateVersions (map RawVersion vs) = []"
  by (induction vs) (simp_all add: migrateVersions_def)

lemma getLocalVersions_saveVersions:
  "fst (getLocalVersions (saveVersions VersionKeys.local vs ls)) =
     (if list_all (\<lambda>v. version v \<noteq> []) vs then vs else [])"
proof -
  let ?ls = "saveVersions VersionKeys.local vs ls"
  have item: "getItem ?ls VersionKeys.local = Some (JsonArray (map RawVersion vs))"
    by (simp add: saveVersions_def getItem_setItem)
  show ?thesis
  proof (cases "list_all (\<lambda>v. version v \<noteq> []) vs")
    case True
    then have "isExpectedFormat (map RawVersion vs) = Inr True"
      by (simp add: isExpectedFormat_stringified)
    with item have "getVersions VersionKeys.local [] ?ls = ([v. RawVersion v \<leftarrow> map RawVersion vs], ?ls)"
      unfolding getVersions_def by simp
    with True show ?thesis by (simp only: getLocalVersions_def parse_stringified fst_conv if_True)
  next
    case False
    then have "isExpectedFormat (map RawVersion vs) = Inr False"
      by (simp add: isExpectedFormat_stringified)
    with item have "fst (getVersions VersionKeys.local [] ?ls) = migrateVersions (map RawVersion vs)"
      unfolding getVersions_def by (simp add: Let_def)
    with False show ?thesis by (simp add: getLocalVersions_def migrateVersions_stringified)
  qed
qed

lemma kept_by_saveLocalVersions:
  "(if isElectronVersion v then source v = Some VersionSource.local else True)
     \<longleftrightarrow> (source v = None \<or> source v = Some VersionSource.local)"
  by (auto simp: isElectronVersion_def)

lemma saveLocalVersions_filter:
  "saveLocalVersions versions ls =
     saveVersions VersionKeys.local
       (filter (\<lambda>v. source v = None \<or> source v = Some VersionSource.local) versions) ls"
  by (simp add: saveLocalVersions_def kept_by_saveLocalVersions)

text \<open>
  C2 (as amended). For every list of versions, plain and runnable mixed, saving it to the
  local-entries store and reloading yields exactly the entries that carry no
  \<^verbatim>\<open>source\<close> or whose \<^verbatim>\<open>source\<close> is local, in their order, provided each of
  these has a non-empty version. Plain entries are kept whatever their \<^verbatim>\<open>localPath\<close>.
\<close>

theorem save_reload_local_versions:
  assumes "list_all (\<lambda>v. version v \<noteq> [])
             (filter (\<lambda>v. source v = None \<or> source v = Some VersionSource.local) versions)"
  shows "fst (getLocalVersions (saveLocalVersions versions ls)) =
           filter (\<lambda>v. source v = None \<or> source v = Some VersionSource.local) versions"
  using assms by (simp add: saveLocalVersions_filter getLocalVersions_saveVersions)

theorem save_reload_local_versions_witness:
  "list_all (\<lambda>v. version v \<noteq> [])
     (filter (\<lambda>v. source v = None \<or> source v = Some VersionSource.local)
        [\<lparr> version = ''10.0.0'', name = None, localPath = None, source = None, state = None \<rparr>,
         \<lparr> version = ''11.0.0'', name = Some ''dev'', localPath = Some ''/builds/11'',
            source = Some VersionSource.local, state = Some installed \<rparr>,
         \<lparr> version = ''12.0.0'', name = None, localPath = None,
            source = Some VersionSource.remote, state = Some missing \<rparr>])
   \<and> fst (getLocalVersions (saveLocalVersions
        [\<lparr> version = ''10.0.0'', name = None, localPath = None, source = None, state = None \<rparr>,
         \<lparr> version = ''11.0.0'', name = Some ''dev'', localPath = Some ''/builds/11'',
            source = Some VersionSource.local, state = Some installed \<rparr>,
         \<lparr> version = ''12.0.0'', name = None, localPath = None,
            source = Some VersionSource.remote, state = Some missing \<rparr>]
        \<lparr> version_item = None, items = \<lambda>key. None \<rparr>))
     = [\<lparr> version = ''10.0.0'', name = None, localPath = None, source = None, state = None \<rparr>,
        \<lparr> version = ''11.0.0'', name = Some ''dev'', localPath = Some ''/builds/11'',
           source = Some VersionSource.local, state = Some installed \<rparr>]"
proof -
  let ?vs = "[\<lparr> version = ''10.0.0'', name = None, localPath = None, source = None, state = None \<rparr>,
         \<lparr> version = ''11.0.0'', name = Some ''dev'', localPath = Some ''/builds/11'',
            source = Some VersionSource.local, state = Some installed \<rparr>,
         \<lparr> version = ''12.0.0'', name = None, localPath = None,
            source = Some VersionSource.remote, state = Some missing \<rparr>]"
  have h: "list_all (\<lambda>v. version v \<noteq> [])
     (filter (\<lambda>v. source v = None \<or> source v = Some VersionSource.local) ?vs)" by simp
  from save_reload_local_versions[OF h, of "\<lparr> version_item = None, items = \<lambda>key. None \<rparr>"] h
  show ?thesis by simp
qed

text \<open>
  The claim as stated fails: a plain entry without \<^verbatim>\<open>localPath\<close> passes the filter of
  \<^verbatim>\<open>saveLocalVersions\<close> and is reloaded, so the reloaded list is not the sublist of
  entries with a truthy \<^verbatim>\<open>localPath\<close>; and an entry with a \<^verbatim>\<open>localPath\<close> and an
  empty version is not reloaded.
\<close>

theorem save_reload_local_versions_counterexample:
  "fst (getLocalVersions (saveLocalVersions
        [\<lparr> version = ''10.0.0'', name = None, localPath = None, source = None, state = None \<rparr>,
         \<lparr> version = ''11.0.0'', name = Some ''dev'', localPath = Some ''/builds/11'',
            source = Some VersionSource.local, state = Some installed \<rparr>]
        \<lparr> version_item = None, items = \<lambda>key. None \<rparr>))
     = [\<lparr> version = ''10.0.0'', name = None, localPath = None, source = None, state = None \<rparr>,
        \<lparr> version = ''11.0.0'', name = Some ''dev'', localPath = Some ''/builds/11'',
           source = Some VersionSource.local, state = Some installed \<rparr>]
   \<and> filter (\<lambda>v. truthy (localPath v))
        [\<lparr> version = ''10.0.0'', name = None, localPath = None, source = None, state = None \<rparr>,
         \<lparr> version = ''11.0.0'', name = Some ''dev'', localPath = Some ''/builds/11'',
            source = Some VersionSource.local, state = Some installed \<rparr>]
     = [\<lparr> version = ''11.0.0'', name = Some ''dev'', localPath = Some ''/builds/11'',
           source = Some VersionSource.local, state = Some installed \<rparr>]
   \<and> fst (getLocalVersions (saveLocalVersions
        [\<lparr> version = [], name = Some ''dev'', localPath = Some ''/builds/dev'', source = None, state = None \<rparr>]
        \<lparr> version_item = None, items = \<lambda>key. None \<rparr>))
     = []"
  by (simp add: saveLocalVersions_filter getLocalVersions_saveVersions truthy_def)

section \<open>Adding a local version\<close>





text \<open>
  A list written by \<open>saveLocalVersions\<close> never reads back with an entry whose source
  is remote.
\<close>

lemma saveLocalVersions_not_remote:
  "list_all (\<lambda>v. source v \<noteq> Some VersionSource.remote)
     (fst (getLocalVersions (saveLocalVersions versions ls)))"
  by (auto simp: saveLocalVersions_filter getLocalVersions_saveVersions list_all_iff)




end
